theory Spec2Isabelle
  imports Main "HOL-Library.Log_Nat"
begin

section \<open>Numbers of the language\<close>

text \<open>
  Every price, total and parsed identifier of the two route handlers is a Number of the
  language: an IEEE 754 binary64 value. The model keeps the finite values as the rationals
  they denote, together with the two infinities and NaN. Arithmetic rounds the exact result
  to the nearest representable value, ties to the even significand, and a decimal literal
  of the source (\<^verbatim>\<open>0.01\<close>) or of a JSON body denotes the nearest
  representable value as well. The sign of zero is not kept: no operation of the handlers
  observes it.
\<close>

datatype number = NaN | PInf | NInf | Fin rat

definition pow2 :: "int \<Rightarrow> rat" where
  \<comment> \<open>the rational \<open>2\<^sup>k\<close>, for an exponent of either sign\<close>
  "pow2 k = (if 0 \<le> k then of_int (2 ^ nat k) else 1 / of_int (2 ^ nat (- k)))"

definition floor_log2 :: "rat \<Rightarrow> int" where
  \<comment> \<open>the binary exponent \<open>e\<close> of a positive rational: \<open>2\<^sup>e \<le> q < 2\<^sup>e\<^sup>+\<^sup>1\<close>\<close>
  "floor_log2 q = (case quotient_of q of (a, b) \<Rightarrow>
     (let d = bitlen a - bitlen b in
      if (if 0 \<le> d then b * 2 ^ nat d \<le> a else b \<le> a * 2 ^ nat (- d)) then d else d - 1))"

definition round_half_even :: "int \<Rightarrow> int \<Rightarrow> int" where
  \<comment> \<open>the integer nearest to \<open>n / d\<close> (for \<open>d > 0\<close>), a tie going to the even one\<close>
  "round_half_even n d = (let f = n div d; r = n mod d in
     if 2 * r < d then f else if d < 2 * r then f + 1 else if even f then f else f + 1)"

definition round_to_grid :: "int \<Rightarrow> rat \<Rightarrow> rat" where
  \<comment> \<open>the multiple of \<open>2\<^sup>k\<close> nearest to \<open>q\<close>\<close>
  "round_to_grid k q = (case quotient_of q of (a, b) \<Rightarrow>
     of_int (if 0 \<le> k then round_half_even a (b * 2 ^ nat k)
             else round_half_even (a * 2 ^ nat (- k)) b) * pow2 k)"

definition round_double :: "rat \<Rightarrow> number" where
  \<comment> \<open>53 significant bits, least exponent \<open>-1022\<close> (subnormals below it), overflow to an
      infinity once the rounded magnitude reaches \<open>2\<^sup>1\<^sup>0\<^sup>2\<^sup>4\<close>\<close>
  "round_double q = (if q = 0 then Fin 0 else
     (let e = max (floor_log2 \<bar>q\<bar>) (- 1022);
          r = round_to_grid (e - 52) q
      in if 1024 \<le> floor_log2 \<bar>r\<bar> then (if 0 < q then PInf else NInf) else Fin r))"

fun js_add :: "number \<Rightarrow> number \<Rightarrow> number" where
  "js_add NaN y = NaN"
| "js_add x NaN = NaN"
| "js_add PInf NInf = NaN"
| "js_add NInf PInf = NaN"
| "js_add PInf y = PInf"
| "js_add NInf y = NInf"
| "js_add (Fin a) PInf = PInf"
| "js_add (Fin a) NInf = NInf"
| "js_add (Fin a) (Fin b) = round_double (a + b)"

fun js_sub :: "number \<Rightarrow> number \<Rightarrow> number" where
  "js_sub NaN y = NaN"
| "js_sub x NaN = NaN"
| "js_sub PInf PInf = NaN"
| "js_sub NInf NInf = NaN"
| "js_sub PInf y = PInf"
| "js_sub NInf y = NInf"
| "js_sub (Fin a) PInf = NInf"
| "js_sub (Fin a) NInf = PInf"
| "js_sub (Fin a) (Fin b) = round_double (a - b)"

fun js_sign_neg :: "number \<Rightarrow> bool" where
  "js_sign_neg NInf = True"
| "js_sign_neg (Fin a) = (a < 0)"
| "js_sign_neg x = False"

fun js_mul :: "number \<Rightarrow> number \<Rightarrow> number" where
  "js_mul NaN y = NaN"
| "js_mul x NaN = NaN"
| "js_mul (Fin a) (Fin b) = round_double (a * b)"
| "js_mul x y = (if x = Fin 0 \<or> y = Fin 0 then NaN
                 else if js_sign_neg x = js_sign_neg y then PInf else NInf)"

fun js_abs :: "number \<Rightarrow> number" where
  \<comment> \<open>\<^verbatim>\<open>Math.abs\<close>\<close>
  "js_abs NaN = NaN"
| "js_abs PInf = PInf"
| "js_abs NInf = PInf"
| "js_abs (Fin a) = Fin \<bar>a\<bar>"

fun js_gt :: "number \<Rightarrow> number \<Rightarrow> bool" where
  \<comment> \<open>\<^verbatim>\<open>x > y\<close>: false as soon as one side is NaN\<close>
  "js_gt NaN y = False"
| "js_gt x NaN = False"
| "js_gt PInf PInf = False"
| "js_gt PInf y = True"
| "js_gt NInf y = False"
| "js_gt (Fin a) PInf = False"
| "js_gt (Fin a) NInf = True"
| "js_gt (Fin a) (Fin b) = (b < a)"


definition isNaN :: "number \<Rightarrow> bool" where
  "isNaN x = (x = NaN)"

definition parseFloat :: "number \<Rightarrow> number" where
  \<comment> \<open>\<^verbatim>\<open>parseFloat\<close> applied to a Number: the argument is converted to its
      shortest round-trip decimal string and parsed back, which yields the same Number\<close>
  "parseFloat x = x"

section \<open>Strings of the language\<close>

text \<open>
  A string is the list of its code units; the model covers the code units below 256, which
  include every character the identifier grammar distinguishes.
\<close>

definition is_white_space :: "char \<Rightarrow> bool" where
  \<comment> \<open>TAB, LF, VT, FF, CR, SP, NBSP: the white space and line terminators below 256\<close>
  "is_white_space c = (c \<in> set [CHR 0x09, CHR 0x0A, CHR 0x0B, CHR 0x0C, CHR 0x0D, CHR 0x20, CHR 0xA0])"

definition is_digit :: "char \<Rightarrow> bool" where
  "is_digit c = (48 \<le> (of_char c :: nat) \<and> (of_char c :: nat) \<le> 57)"

definition is_hex_digit :: "char \<Rightarrow> bool" where
  \<comment> \<open>the class \<^verbatim>\<open>[0-9a-f]\<close> under the flag \<^verbatim>\<open>i\<close>\<close>
  "is_hex_digit c = (is_digit c
      \<or> (97 \<le> (of_char c :: nat) \<and> (of_char c :: nat) \<le> 102)
      \<or> (65 \<le> (of_char c :: nat) \<and> (of_char c :: nat) \<le> 70))"

definition digits_value :: "string \<Rightarrow> int" where
  "digits_value z = foldl (\<lambda>acc c. 10 * acc + (int (of_char c) - 48)) 0 z"

definition parseInt :: "string \<Rightarrow> number" where
  \<comment> \<open>\<^verbatim>\<open>parseInt(s, 10)\<close>: leading white space is skipped, one sign is read, then the
      longest run of decimal digits; whatever follows the run is ignored, and an empty run
      gives NaN. The value of the run is converted to a Number. (Beyond twenty digits an
      implementation may read the further digits as zeros; the model reads them all.)\<close>
  "parseInt inputString =
     (let s = dropWhile is_white_space inputString;
          negative = (case s of [] \<Rightarrow> False | c # r \<Rightarrow> c = CHR ''-'');
          t = (case s of [] \<Rightarrow> s | c # r \<Rightarrow> if c = CHR ''-'' \<or> c = CHR ''+'' then r else s);
          z = takeWhile is_digit t
      in if z = [] then NaN
         else round_double (of_int (if negative then - digits_value z else digits_value z)))"

fun split :: "char \<Rightarrow> string \<Rightarrow> string list" where
  \<comment> \<open>\<^verbatim>\<open>s.split(sep)\<close> for a one-character separator; the empty string gives one empty part\<close>
  "split sep [] = [[]]"
| "split sep (c # s) =
     (if c = sep then [] # split sep s
      else (case split sep s of [] \<Rightarrow> [[c]] | p # ps \<Rightarrow> (c # p) # ps))"

definition startsWith :: "string \<Rightarrow> string \<Rightarrow> bool" where
  "startsWith s pre = (take (length pre) s = pre)"

fun match_hex :: "nat \<Rightarrow> string \<Rightarrow> string option" where
  \<comment> \<open>\<^verbatim>\<open>[0-9a-f]{n}\<close>: consumes exactly \<open>n\<close> hexadecimal digits, returns the rest\<close>
  "match_hex 0 s = Some s"
| "match_hex (Suc n) [] = None"
| "match_hex (Suc n) (c # s) = (if is_hex_digit c then match_hex n s else None)"

fun match_dash :: "string \<Rightarrow> string option" where
  "match_dash [] = None"
| "match_dash (c # s) = (if c = CHR ''-'' then Some s else None)"

definition uuidPattern_test :: "string \<Rightarrow> bool" where
  \<comment> \<open>\<^verbatim>\<open>/^[0-9a-f]{8}-[0-9a-f]{4}-[0-9a-f]{4}-[0-9a-f]{4}-[0-9a-f]{12}$/i.test(s)\<close>\<close>
  "uuidPattern_test s =
     (Option.bind (Option.bind (Option.bind (Option.bind (Option.bind (Option.bind
        (Option.bind (Option.bind (match_hex 8 s) match_dash) (match_hex 4)) match_dash)
        (match_hex 4)) match_dash) (match_hex 4)) match_dash) (match_hex 12) = Some [])"

section \<open>Cart item identifiers\<close>

datatype parsed = PNull | PNum number | PStr string

definition parseCartItemId :: "string \<Rightarrow> parsed" where
  \<comment> \<open>Nothing in the body throws on a string, so the handler of the \<^verbatim>\<open>try\<close> is
      never entered.\<close>
  "parseCartItemId cartItemId =
     (let parts = split (CHR ''_'') cartItemId in
      if startsWith cartItemId ''cart_'' \<and> 2 \<le> length parts then
        (let productIdPart = parts ! 1;
             legacyId = parseInt productIdPart
         in if \<not> isNaN legacyId \<and> js_gt legacyId (Fin 0) then PNum legacyId
            else PStr productIdPart)
      else
        (let numericId = parseInt cartItemId
         in if \<not> isNaN numericId \<and> js_gt numericId (Fin 0) then PNum numericId
            else if uuidPattern_test cartItemId then PStr cartItemId
            else PNull))"

fun truthy :: "parsed \<Rightarrow> bool" where
  \<comment> \<open>the truth value the language gives to a value: \<^verbatim>\<open>null\<close>, \<^verbatim>\<open>0\<close>,
      \<^verbatim>\<open>NaN\<close> and the empty string are false\<close>
  "truthy PNull = False"
| "truthy (PNum n) = (n \<noteq> NaN \<and> n \<noteq> Fin 0)"
| "truthy (PStr s) = (s \<noteq> [])"

section \<open>Validation of the basket prices against the catalog\<close>

datatype exn = Nullish | Error "string option"
  \<comment> \<open>a thrown value: \<^verbatim>\<open>undefined\<close> or \<^verbatim>\<open>null\<close>; or any other value, with its
      \<^verbatim>\<open>message\<close> property when it has one\<close>

definition property_of_nullish :: exn where
  \<comment> \<open>the TypeError that the language throws when a property of \<^verbatim>\<open>undefined\<close> or
      \<^verbatim>\<open>null\<close> is read, or when their keys are listed; its wording is not kept\<close>
  "property_of_nullish = Error (Some ''TypeError: undefined or null'')"

record basket_item =
  item_id :: string
  item_name :: string
  item_category :: string
  item_price :: number

record product =
  prod_id :: string
  prod_name :: string
  prod_price :: number
  prod_legacy_id :: "number option"

datatype column = Col_legacy_id | Col_id

datatype query = Eq column parsed
  \<comment> \<open>\<^verbatim>\<open>from('products').select('id, name, price, legacy_id').eq(column, value).single()\<close>\<close>

datatype insert_row =
    Payment_transaction string number
  | Order string number
  \<comment> \<open>the table, the order number and the amount of an inserted row\<close>

record supabase =
  select_single :: "query \<Rightarrow> exn + product option"
    \<comment> \<open>the \<^verbatim>\<open>data\<close> of the answer: the one matching row, \<^verbatim>\<open>null\<close> when there is
        none or more than one; or the query throws\<close>
  insert_throws :: "insert_row \<Rightarrow> exn option"

datatype message =
    Invalid_id_format string
      \<comment> \<open>the cart item id\<close>
  | Product_not_found string string parsed
      \<comment> \<open>the item name, the cart item id, the parsed product id\<close>
  | Price_manipulation string number number
      \<comment> \<open>the catalog name, the catalog price, the client price\<close>
  | Validation_error
      \<comment> \<open>the fixed text returned by the \<^verbatim>\<open>catch\<close> of the validator\<close>

record validation =
  isValid :: bool
  message :: "message option"
  validatedItems :: "basket_item list option"
  calculatedTotal :: "number option"

definition tolerancePercentage :: number where
  "tolerancePercentage = round_double (1 / 100)"

definition invalid :: "message \<Rightarrow> validation" where
  \<comment> \<open>\<^verbatim>\<open>{ isValid: false, message }\<close>\<close>
  "invalid m = \<lparr>isValid = False, message = Some m, validatedItems = None, calculatedTotal = None\<rparr>"

definition product_query :: "parsed \<Rightarrow> query" where
  \<comment> \<open>a number is looked up as a legacy id, anything else as an id\<close>
  "product_query actualProductId =
     (case actualProductId of PNum n \<Rightarrow> Eq Col_legacy_id actualProductId
                            | _ \<Rightarrow> Eq Col_id actualProductId)"

definition validate_item :: "supabase \<Rightarrow> basket_item \<Rightarrow> (message + basket_item \<times> number) \<times> query list" where
  \<comment> \<open>The body of the loop over the basket, for one item: the message of the early return
      that ends the validation, or the validated item and its catalog price; and the
      queries sent to the catalog on the way.\<close>
  "validate_item sb item =
     (let actualProductId = parseCartItemId (item_id item) in
      if \<not> truthy actualProductId then (Inl (Invalid_id_format (item_id item)), [])
      else
        (let q = product_query actualProductId in
         case select_single sb q of
           Inl e \<Rightarrow> (Inl Validation_error, [q])
         | Inr None \<Rightarrow>
             (Inl (Product_not_found (item_name item) (item_id item) actualProductId), [q])
         | Inr (Some product) \<Rightarrow>
             (let dbPrice = parseFloat (prod_price product);
                  clientPrice = parseFloat (item_price item);
                  priceDifference = js_abs (js_sub dbPrice clientPrice)
              in if js_gt priceDifference (js_mul dbPrice tolerancePercentage)
                 then (Inl (Price_manipulation (prod_name product) dbPrice clientPrice), [q])
                 else (Inr (\<lparr>item_id = prod_id product, item_name = prod_name product,
                             item_category = item_category item, item_price = dbPrice\<rparr>,
                            dbPrice), [q]))))"

fun validate_loop ::
  "supabase \<Rightarrow> basket_item list \<Rightarrow> basket_item list \<Rightarrow> number \<Rightarrow> query list
     \<Rightarrow> validation \<times> query list" where
  \<comment> \<open>the loop, with the list of the validated items, the running total and the queries
      sent so far\<close>
  "validate_loop sb [] validated running sent =
     (\<lparr>isValid = True, message = None, validatedItems = Some validated,
       calculatedTotal = Some running\<rparr>, sent)"
| "validate_loop sb (item # rest) validated running sent =
     (case validate_item sb item of
        (Inl m, qs) \<Rightarrow> (invalid m, sent @ qs)
      | (Inr (v, dbPrice), qs) \<Rightarrow>
          validate_loop sb rest (validated @ [v]) (js_add running dbPrice) (sent @ qs))"

definition validateBasketPrices :: "supabase \<Rightarrow> basket_item list \<Rightarrow> validation \<times> query list" where
  "validateBasketPrices sb basketItems = validate_loop sb basketItems [] (Fin 0) []"

section \<open>The payment initialisation handler\<close>

text \<open>
  The handler is a function of what its collaborators answer: the parsed body of the
  request, the schema check, the database client, the gateway settings and the gateway.
  Each of them either returns or throws. The calls of the logger change no result and are
  left out, except where the evaluation of their arguments can throw. The handler returns
  its response, or throws, and it returns, in order, the effects it had on the gateway and
  on the database.
\<close>

record 'd payment_request =
  orderNumber :: string
  amount :: number
  basketItems :: "basket_item list"
  callbackUrl :: "string option"
  ipAddress :: "string option"
  userAgent :: "string option"
  particulars :: 'd
    \<comment> \<open>currency, installment, user, buyer, addresses and card: handed on as received\<close>

record payment_result =
  res_success :: bool
  res_paymentId :: "string option"
  res_conversationId :: "string option"
  res_htmlContent :: "string option"
  res_threeDSHtmlContent :: "string option"
  res_errorMessage :: "string option"
  res_errorCode :: "string option"

datatype error_text =
    Invalid_data_format
  | Security_check_failed "message option"
      \<comment> \<open>a fixed prefix followed by the message of the validation\<close>
  | Total_manipulation number number
      \<comment> \<open>the validated total and the client total\<close>
  | Payment_system_inactive
  | Gateway_error string
  | Unexpected_server_error
      \<comment> \<open>a fixed text\<close>

record payment_data =
  paymentId :: "string option"
  conversationId :: "string option"
  htmlContent :: "string option"
  threeDSHtmlContent :: "string option"

record 'e response =
  status :: nat
  success :: bool
  error :: "error_text option"
  details :: "'e option"
  data :: "payment_data option"
  errorCode :: "string option"

record ('j, 'e, 'd, 's) payment_env =
  request_json :: "exn + 'j option"
    \<comment> \<open>the parsed body of the request; \<open>None\<close> is the JSON value \<^verbatim>\<open>null\<close>\<close>
  safeParse :: "'j \<Rightarrow> 'e + 'd payment_request"
    \<comment> \<open>the schema check of the body: the list of violations, or the typed request\<close>
  createSupabaseServerClient :: "exn + supabase"
  getIyzicoSettingsFromEnv :: "exn + 's option"
  createIyzicoService :: "'s \<Rightarrow> exn option"
  initiate3DSecurePayment :: "'s \<Rightarrow> 'd payment_request \<Rightarrow> exn + payment_result"
  env_NEXT_PUBLIC_APP_URL :: "string option"
  nextUrl_origin :: string
  request_ip :: "string option"
  header_user_agent :: "string option"

datatype 'd effect = Gateway_call "'d payment_request" | Insert insert_row
  \<comment> \<open>a call of the gateway with its request; an insert sent to the database\<close>

definition or_else :: "string option \<Rightarrow> string \<Rightarrow> string" where
  \<comment> \<open>\<^verbatim>\<open>x || d\<close> on strings: a missing and an empty string give \<open>d\<close>\<close>
  "or_else x d = (case x of None \<Rightarrow> d | Some s \<Rightarrow> if s = [] then d else s)"

definition total_mismatch :: "number \<Rightarrow> number \<Rightarrow> bool" where
  \<comment> \<open>\<^verbatim>\<open>Math.abs(validatedTotal - clientTotal) > 0.01\<close>\<close>
  "total_mismatch validatedTotal clientTotal =
     js_gt (js_abs (js_sub validatedTotal clientTotal)) (round_double (1 / 100))"

definition persist :: "supabase \<Rightarrow> 'd payment_request \<Rightarrow> insert_row list" where
  \<comment> \<open>The two inserts after a successful initiation, inside their own \<^verbatim>\<open>try\<close>: an
      insert that throws skips the next one, and nothing of it reaches the response.\<close>
  "persist sb req =
     (let t = Payment_transaction (orderNumber req) (amount req);
          ord = Order (orderNumber req) (amount req)
      in case insert_throws sb t of Some e \<Rightarrow> [t] | None \<Rightarrow> [t, ord])"

definition respond :: "nat \<Rightarrow> error_text \<Rightarrow> 'e response" where
  \<comment> \<open>\<^verbatim>\<open>NextResponse.json({ success: false, error }, { status })\<close>\<close>
  "respond code e = \<lparr>status = code, success = False, error = Some e, details = None,
                      data = None, errorCode = None\<rparr>"

definition initiate ::
  "('j, 'e, 'd, 's) payment_env \<Rightarrow> supabase \<Rightarrow> 'd payment_request
     \<Rightarrow> (exn + 'e response) \<times> 'd effect list" where
  \<comment> \<open>from the loading of the gateway settings to the response\<close>
  "initiate env sb paymentRequest =
     (case getIyzicoSettingsFromEnv env of
        Inl x \<Rightarrow> (Inl x, [])
      | Inr None \<Rightarrow> (Inr (respond 503 Payment_system_inactive), [])
      | Inr (Some settings) \<Rightarrow>
          (let baseUrl = or_else (env_NEXT_PUBLIC_APP_URL env) (nextUrl_origin env);
               req = paymentRequest
                 \<lparr>callbackUrl := Some (baseUrl @ ''/api/payment/iyzico/callback''),
                  ipAddress := Some (or_else (request_ip env) ''127.0.0.1''),
                  userAgent := Some (or_else (header_user_agent env) ''Unknown'')\<rparr>
           in case createIyzicoService env settings of
                Some x \<Rightarrow> (Inl x, [])
              | None \<Rightarrow>
                  (case initiate3DSecurePayment env settings req of
                     Inl x \<Rightarrow> (Inl x, [Gateway_call req])
                   | Inr paymentResult \<Rightarrow>
                       if res_success paymentResult
                       then (Inr \<lparr>status = 200, success = True, error = None, details = None,
                                  data = Some \<lparr>paymentId = res_paymentId paymentResult,
                                    conversationId = res_conversationId paymentResult,
                                    htmlContent = res_htmlContent paymentResult,
                                    threeDSHtmlContent = res_threeDSHtmlContent paymentResult\<rparr>,
                                  errorCode = None\<rparr>,
                             Gateway_call req # map Insert (persist sb req))
                       else (Inr ((respond 400 (Gateway_error
                                     (or_else (res_errorMessage paymentResult) ''Odeme baslatilamadi'')))
                                  \<lparr>errorCode := res_errorCode paymentResult\<rparr>),
                             [Gateway_call req]))))"

definition use_validated ::
  "('j, 'e, 'd, 's) payment_env \<Rightarrow> supabase \<Rightarrow> 'd payment_request \<Rightarrow> validation
     \<Rightarrow> (exn + 'e response) \<times> 'd effect list" where
  \<comment> \<open>After a valid validation: the basket of the request is replaced by the validated
      items, the client total is compared with the validated total, and the amount is
      replaced by the validated total. A valid validation carries both fields; the last
      branch stands for the non-null assertions of the source.\<close>
  "use_validated env sb paymentRequest priceValidation =
     (case (validatedItems priceValidation, calculatedTotal priceValidation) of
        (Some items, Some validatedTotal) \<Rightarrow>
          (let request1 = paymentRequest\<lparr>basketItems := items\<rparr>;
               clientTotal = amount request1
           in if total_mismatch validatedTotal clientTotal
              then (Inr (respond 400 (Total_manipulation validatedTotal clientTotal)), [])
              else initiate env sb (request1\<lparr>amount := validatedTotal\<rparr>))
      | _ \<Rightarrow> (Inl property_of_nullish, []))"

definition POST_try ::
  "('j, 'e, 'd, 's) payment_env \<Rightarrow> (exn + 'e response) \<times> 'd effect list" where
  \<comment> \<open>The body of the \<^verbatim>\<open>try\<close> of the handler: a response, or the value thrown.
      The keys of the parsed body are listed (for the log) before the schema check, which
      throws on the body \<^verbatim>\<open>null\<close>.\<close>
  "POST_try env =
     (case request_json env of
        Inl x \<Rightarrow> (Inl x, [])
      | Inr None \<Rightarrow> (Inl property_of_nullish, [])
      | Inr (Some body) \<Rightarrow>
          (case safeParse env body of
             Inl errs \<Rightarrow> (Inr ((respond 400 Invalid_data_format)\<lparr>details := Some errs\<rparr>), [])
           | Inr paymentRequest \<Rightarrow>
               (case createSupabaseServerClient env of
                  Inl x \<Rightarrow> (Inl x, [])
                | Inr sb \<Rightarrow>
                    (let priceValidation = fst (validateBasketPrices sb (basketItems paymentRequest))
                     in if \<not> isValid priceValidation
                        then (Inr (respond 400 (Security_check_failed (message priceValidation))), [])
                        else use_validated env sb paymentRequest priceValidation))))"

definition POST ::
  "('j, 'e, 'd, 's) payment_env \<Rightarrow> (exn + 'e response) \<times> 'd effect list" where
  \<comment> \<open>\<^verbatim>\<open>POST\<close> of \<^verbatim>\<open>payment/iyzico/initialize\<close>. The \<^verbatim>\<open>catch\<close>
      reads the \<^verbatim>\<open>message\<close> of the thrown value, then answers with one fixed
      response; on a thrown \<^verbatim>\<open>undefined\<close> or \<^verbatim>\<open>null\<close> the read throws and
      the handler itself throws.\<close>
  "POST env =
     (case POST_try env of
        (Inl Nullish, effects) \<Rightarrow> (Inl property_of_nullish, effects)
      | (Inl (Error m), effects) \<Rightarrow> (Inr (respond 500 Unexpected_server_error), effects)
      | (Inr r, effects) \<Rightarrow> (Inr r, effects))"

section \<open>The magic login handler\<close>

record link_result =
  link_success :: bool
  link_loginUrl :: "string option"
  link_error :: "string option"

record ('j, 'e) login_env =
  login_request_json :: "exn + 'j"
  login_safeParse :: "'j \<Rightarrow> 'e + string"
    \<comment> \<open>the schema check of the body: the list of violations, or the e-mail address\<close>
  login_NEXT_PUBLIC_APP_URL :: "string option"
  generateMagicLoginLink :: "string \<Rightarrow> string \<Rightarrow> exn + link_result"
  sendMagicLoginEmail :: "string \<Rightarrow> string option \<Rightarrow> exn + bool"
  env_NODE_ENV :: "string option"

datatype login_error =
    Invalid_email
  | Link_error "string option"
      \<comment> \<open>the \<^verbatim>\<open>error\<close> of the link generator, as it is\<close>
  | Email_not_sent
  | Server_error string
      \<comment> \<open>a fixed prefix followed by this text\<close>

record 'e login_response =
  login_status :: nat
  login_success :: bool
  login_error :: "login_error option"
  login_details :: "'e option"
  login_message :: "string option"
  login_loginUrl :: "string option"

definition confirmation :: string where
  \<comment> \<open>the text of the source, without its diacritics\<close>
  "confirmation = ''Giris linki olusturuldu ve e-mail gonderildi. E-mail kutunuzu kontrol edin.''"

definition login_respond :: "nat \<Rightarrow> login_error \<Rightarrow> 'e login_response" where
  "login_respond code e = \<lparr>login_status = code, login_success = False, login_error = Some e,
     login_details = None, login_message = None, login_loginUrl = None\<rparr>"

definition login_POST_try :: "('j, 'e) login_env \<Rightarrow> exn + 'e login_response" where
  \<comment> \<open>the body of the \<^verbatim>\<open>try\<close> of the handler\<close>
  "login_POST_try env =
     (case login_request_json env of
        Inl x \<Rightarrow> Inl x
      | Inr body \<Rightarrow>
          (case login_safeParse env body of
             Inl errs \<Rightarrow> Inr ((login_respond 400 Invalid_email)\<lparr>login_details := Some errs\<rparr>)
           | Inr email \<Rightarrow>
               (let baseUrl = or_else (login_NEXT_PUBLIC_APP_URL env) ''http://localhost:3000''
                in case generateMagicLoginLink env email baseUrl of
                     Inl x \<Rightarrow> Inl x
                   | Inr result \<Rightarrow>
                       if \<not> link_success result
                       then Inr (login_respond 500 (Link_error (link_error result)))
                       else
                         (case sendMagicLoginEmail env email (link_loginUrl result) of
                            Inl x \<Rightarrow> Inl x
                          | Inr emailSent \<Rightarrow>
                              if \<not> emailSent then Inr (login_respond 500 Email_not_sent)
                              else Inr \<lparr>login_status = 200, login_success = True,
                                        login_error = None, login_details = None,
                                        login_message = Some confirmation,
                                        login_loginUrl =
                                          (if env_NODE_ENV env = Some ''development''
                                           then link_loginUrl result else None)\<rparr>))))"

definition login_POST :: "('j, 'e) login_env \<Rightarrow> exn + 'e login_response" where
  \<comment> \<open>\<^verbatim>\<open>POST\<close> of \<^verbatim>\<open>customer/magic-login\<close>. The \<^verbatim>\<open>catch\<close> answers
      with the \<^verbatim>\<open>message\<close> of the thrown value, or with a fixed text when the
      message is missing or empty; on a thrown \<^verbatim>\<open>undefined\<close> or \<^verbatim>\<open>null\<close>
      the read of the message throws and the handler itself throws.\<close>
  "login_POST env =
     (case login_POST_try env of
        Inl Nullish \<Rightarrow> Inl property_of_nullish
      | Inl (Error m) \<Rightarrow> Inr (login_respond 500 (Server_error (or_else m ''Bilinmeyen hata'')))
      | Inr r \<Rightarrow> Inr r)"

section \<open>A catalog and requests to evaluate the handlers on\<close>

definition example_catalog :: supabase where
  \<comment> \<open>two products, with the legacy ids 1 and 2 and the prices 100 and 50\<close>
  "example_catalog =
     \<lparr>select_single = (\<lambda>q.
        if q = Eq Col_legacy_id (PNum (Fin 1))
        then Inr (Some \<lparr>prod_id = ''0a000000-0000-4000-8000-000000000001'',
                         prod_name = ''Lamp'', prod_price = Fin 100,
                         prod_legacy_id = Some (Fin 1)\<rparr>)
        else if q = Eq Col_legacy_id (PNum (Fin 2))
        then Inr (Some \<lparr>prod_id = ''0a000000-0000-4000-8000-000000000002'',
                         prod_name = ''Vase'', prod_price = Fin 50,
                         prod_legacy_id = Some (Fin 2)\<rparr>)
        else Inr None),
      insert_throws = (\<lambda>r. None)\<rparr>"

definition example_item :: "string \<Rightarrow> number \<Rightarrow> basket_item" where
  "example_item cartItemId clientPrice =
     \<lparr>item_id = cartItemId, item_name = ''Item'', item_category = ''Home'',
      item_price = clientPrice\<rparr>"

definition example_request :: "basket_item list \<Rightarrow> number \<Rightarrow> unit payment_request" where
  "example_request items clientTotal =
     \<lparr>orderNumber = ''ORD-1'', amount = clientTotal, basketItems = items,
      callbackUrl = None, ipAddress = None, userAgent = None, particulars = ()\<rparr>"

definition example_env ::
  "basket_item list \<Rightarrow> number \<Rightarrow> (unit, unit, unit, unit) payment_env" where
  \<comment> \<open>a well-formed request with the given basket and amount; every collaborator answers\<close>
  "example_env items clientTotal =
     \<lparr>request_json = Inr (Some ()),
      safeParse = (\<lambda>body. Inr (example_request items clientTotal)),
      createSupabaseServerClient = Inr example_catalog,
      getIyzicoSettingsFromEnv = Inr (Some ()),
      createIyzicoService = (\<lambda>settings. None),
      initiate3DSecurePayment = (\<lambda>settings req. Inr
        \<lparr>res_success = True, res_paymentId = Some ''pay-1'', res_conversationId = Some ''conv-1'',
         res_htmlContent = Some ''<html>'', res_threeDSHtmlContent = None,
         res_errorMessage = None, res_errorCode = None\<rparr>),
      env_NEXT_PUBLIC_APP_URL = None,
      nextUrl_origin = ''https://shop.example'',
      request_ip = None,
      header_user_agent = None\<rparr>"

definition example_login_env :: "string option \<Rightarrow> (unit, unit) login_env" where
  \<comment> \<open>a well-formed request in the given mode of the process; every collaborator answers\<close>
  "example_login_env mode =
     \<lparr>login_request_json = Inr (),
      login_safeParse = (\<lambda>body. Inr ''a@b.example''),
      login_NEXT_PUBLIC_APP_URL = None,
      generateMagicLoginLink = (\<lambda>email baseUrl. Inr
        \<lparr>link_success = True, link_loginUrl = Some (baseUrl @ ''/login?token=t''),
         link_error = None\<rparr>),
      sendMagicLoginEmail = (\<lambda>email url. Inr True),
      env_NODE_ENV = mode\<rparr>"

definition example_gateway_request :: "unit payment_request" where
  \<comment> \<open>the request with the basket and the amount of the catalog: one lamp, 100\<close>
  "example_gateway_request =
     \<lparr>orderNumber = ''ORD-1'', amount = Fin 100,
      basketItems = [\<lparr>item_id = ''0a000000-0000-4000-8000-000000000001'', item_name = ''Lamp'',
                      item_category = ''Home'', item_price = Fin 100\<rparr>],
      callbackUrl = Some ''https://shop.example/api/payment/iyzico/callback'',
      ipAddress = Some ''127.0.0.1'', userAgent = Some ''Unknown'', particulars = ()\<rparr>"



definition lamp :: product where
  "lamp = \<lparr>prod_id = ''0a000000-0000-4000-8000-000000000001'', prod_name = ''Lamp'',
            prod_price = Fin 100, prod_legacy_id = Some (Fin 1)\<rparr>"


section \<open>Notation for the statements\<close>

abbreviation queried :: "supabase \<Rightarrow> basket_item \<Rightarrow> exn + product option" where
  \<comment> \<open>what the catalog answers to the query for the product of an item\<close>
  "queried sb item \<equiv> select_single sb (product_query (parseCartItemId (item_id item)))"

abbreviation query_of :: "basket_item \<Rightarrow> query" where
  "query_of item \<equiv> product_query (parseCartItemId (item_id item))"

abbreviation price_exceeds :: "product \<Rightarrow> basket_item \<Rightarrow> bool" where
  \<comment> \<open>\<^verbatim>\<open>Math.abs(dbPrice - clientPrice) > dbPrice * 0.01\<close>\<close>
  "price_exceeds p item \<equiv>
     js_gt (js_abs (js_sub (prod_price p) (item_price item)))
           (js_mul (prod_price p) (round_double (1 / 100)))"

abbreviation accepted :: "supabase \<Rightarrow> basket_item \<Rightarrow> product \<Rightarrow> bool" where
  \<comment> \<open>the id of the item parses, the catalog has the product, the price does not exceed\<close>
  "accepted sb item p \<equiv>
     truthy (parseCartItemId (item_id item)) \<and> queried sb item = Inr (Some p)
     \<and> \<not> price_exceeds p item"

abbreviation catalog_priced :: "basket_item \<Rightarrow> product \<Rightarrow> basket_item" where
  \<comment> \<open>id, name and price of the catalog product, category of the client item\<close>
  "catalog_priced item p \<equiv>
     \<lparr>item_id = prod_id p, item_name = prod_name p,
      item_category = item_category item, item_price = prod_price p\<rparr>"

abbreviation rejection :: "message \<Rightarrow> validation" where
  "rejection m \<equiv>
     \<lparr>isValid = False, message = Some m, validatedItems = None, calculatedTotal = None\<rparr>"

abbreviation acceptance :: "basket_item list \<Rightarrow> number \<Rightarrow> validation" where
  "acceptance items t \<equiv>
     \<lparr>isValid = True, message = None, validatedItems = Some items, calculatedTotal = Some t\<rparr>"

abbreviation gateway_request ::
  "('j, 'e, 'd, 's) payment_env \<Rightarrow> 'd payment_request \<Rightarrow> basket_item list \<Rightarrow> number
     \<Rightarrow> 'd payment_request" where
  \<comment> \<open>the request of the client with the given basket and amount, and with the callback
      address, the caller's address and the user agent that the handler attaches\<close>
  "gateway_request env paymentRequest items t \<equiv>
     paymentRequest
       \<lparr>basketItems := items, amount := t,
        callbackUrl := Some (or_else (env_NEXT_PUBLIC_APP_URL env) (nextUrl_origin env)
                              @ ''/api/payment/iyzico/callback''),
        ipAddress := Some (or_else (request_ip env) ''127.0.0.1''),
        userAgent := Some (or_else (header_user_agent env) ''Unknown'')\<rparr>"

section \<open>Properties of the number and string functions\<close>

lemma split_nonempty: "split sep s \<noteq> []"
  by (induction s) (auto split: list.splits)

lemma split_length_sep: "sep \<in> set s \<Longrightarrow> 2 \<le> length (split sep s)"
proof (induction s)
  case Nil
  then show ?case by simp
next
  case (Cons c s)
  show ?case
  proof (cases "c = sep")
    case True
    with split_nonempty [of sep s] show ?thesis
      by (cases "split sep s") auto
  next
    case False
    with Cons show ?thesis by (auto split: list.splits)
  qed
qed

lemma startsWith_cart_sep: "startsWith s ''cart_'' \<Longrightarrow> CHR ''_'' \<in> set s"
proof -
  assume "startsWith s ''cart_''"
  then have e: "take (length ''cart_'') s = ''cart_''" by (simp only: startsWith_def)
  have "CHR ''_'' \<in> set ''cart_''" by simp
  then have "CHR ''_'' \<in> set (take (length ''cart_'') s)" by (simp only: e)
  then show ?thesis by (rule in_set_takeD)
qed

lemma round_half_even_one: "round_half_even n 1 = n"
  by (simp add: round_half_even_def)

lemma round_to_grid_int: "\<exists>j. round_to_grid k (of_int n) = of_int j"
proof (cases "0 \<le> k")
  case True
  then have "round_to_grid k (of_int n)
      = of_int (round_half_even n (2 ^ nat k) * 2 ^ nat k)"
    by (simp add: round_to_grid_def quotient_of_int pow2_def)
  then show ?thesis by blast
next
  case False
  then have "round_to_grid k (of_int n) = of_int n"
    by (simp add: round_to_grid_def quotient_of_int pow2_def round_half_even_one)
  then show ?thesis by blast
qed

lemma round_double_int:
  "round_double (of_int n) = PInf \<or> round_double (of_int n) = NInf
   \<or> (\<exists>j. round_double (of_int n) = Fin (of_int j))"
proof (cases "n = 0")
  case True
  then have "round_double (of_int n) = Fin (of_int 0)" by (simp add: round_double_def)
  then show ?thesis by blast
next
  case False
  obtain j where "round_to_grid (max (floor_log2 \<bar>of_int n\<bar>) (- 1022) - 52) (of_int n) = of_int j"
    using round_to_grid_int by blast
  with False show ?thesis by (auto simp: round_double_def Let_def)
qed

lemma parseInt_value:
  "parseInt s = NaN \<or> parseInt s = PInf \<or> parseInt s = NInf
   \<or> (\<exists>j. parseInt s = Fin (of_int j))"
proof (cases "parseInt s = NaN")
  case True
  then show ?thesis by simp
next
  case False
  then obtain n where "parseInt s = round_double (of_int n)"
    by (auto simp: parseInt_def Let_def split: if_splits)
  with round_double_int [of n] show ?thesis by auto
qed

lemma positive_parseInt:
  assumes "\<not> isNaN (parseInt s)" and "js_gt (parseInt s) (Fin 0)"
  shows "parseInt s = PInf \<or> (\<exists>k>0. parseInt s = Fin (of_int k))"
proof -
  from parseInt_value [of s] assms(1)
  consider "parseInt s = PInf" | "parseInt s = NInf" | j where "parseInt s = Fin (of_int j)"
    by (auto simp: isNaN_def)
  then show ?thesis
  proof cases
    case 1
    then show ?thesis by simp
  next
    case 2
    with assms(2) show ?thesis by simp
  next
    case 3
    with assms(2) have "0 < j" by simp
    with 3 show ?thesis by blast
  qed
qed

lemma parseCartItemId_cart:
  assumes "startsWith s ''cart_''"
  shows "parseCartItemId s =
     (if \<not> isNaN (parseInt (split (CHR ''_'') s ! 1))
         \<and> js_gt (parseInt (split (CHR ''_'') s ! 1)) (Fin 0)
      then PNum (parseInt (split (CHR ''_'') s ! 1))
      else PStr (split (CHR ''_'') s ! 1))"
  using assms split_length_sep [OF startsWith_cart_sep [OF assms]]
  by (simp add: parseCartItemId_def Let_def)

lemma parseInt_empty: "parseInt [] = NaN"
  by (simp add: parseInt_def)

lemma truthy_cart:
  assumes "startsWith s ''cart_''"
  shows "truthy (parseCartItemId s) \<longleftrightarrow> split (CHR ''_'') s ! 1 \<noteq> []"
proof (cases "\<not> isNaN (parseInt (split (CHR ''_'') s ! 1))
         \<and> js_gt (parseInt (split (CHR ''_'') s ! 1)) (Fin 0)")
  case True
  then have "split (CHR ''_'') s ! 1 \<noteq> []"
    by (auto simp: parseInt_empty isNaN_def)
  moreover from True have "parseInt (split (CHR ''_'') s ! 1) \<noteq> Fin 0"
    by auto
  ultimately show ?thesis using True
    by (simp add: parseCartItemId_cart [OF assms] isNaN_def)
next
  case False
  then show ?thesis by (auto simp: parseCartItemId_cart [OF assms])
qed

lemma validate_item_invalid_id:
  "fst (validate_item sb item) = Inl (Invalid_id_format (item_id item))
   \<longleftrightarrow> \<not> truthy (parseCartItemId (item_id item))"
  by (auto simp: validate_item_def Let_def split: sum.splits option.splits)














section \<open>Properties of the validation loop\<close>


lemma validate_item_unparsed:
  assumes "\<not> truthy (parseCartItemId (item_id item))"
  shows "validate_item sb item = (Inl (Invalid_id_format (item_id item)), [])"
  using assms by (simp add: validate_item_def)

lemma validate_item_threw:
  assumes "truthy (parseCartItemId (item_id item))" and "queried sb item = Inl e"
  shows "validate_item sb item = (Inl Validation_error, [query_of item])"
  using assms by (simp add: validate_item_def Let_def)

lemma validate_item_not_found:
  assumes "truthy (parseCartItemId (item_id item))" and "queried sb item = Inr None"
  shows "validate_item sb item =
     (Inl (Product_not_found (item_name item) (item_id item) (parseCartItemId (item_id item))),
      [query_of item])"
  using assms by (simp add: validate_item_def Let_def)

lemma validate_item_exceeds:
  assumes "truthy (parseCartItemId (item_id item))" and "queried sb item = Inr (Some p)"
    and "price_exceeds p item"
  shows "validate_item sb item =
     (Inl (Price_manipulation (prod_name p) (prod_price p) (item_price item)), [query_of item])"
  using assms by (simp add: validate_item_def parseFloat_def tolerancePercentage_def Let_def)

lemma validate_item_accepted:
  assumes "accepted sb item p"
  shows "validate_item sb item = (Inr (catalog_priced item p, prod_price p), [query_of item])"
  using assms by (simp add: validate_item_def parseFloat_def tolerancePercentage_def Let_def)

lemma validate_item_valid:
  assumes "validate_item sb item = (Inr (v, d), qs)"
  shows "\<exists>p. accepted sb item p \<and> v = catalog_priced item p \<and> d = prod_price p"
  using assms
  by (auto simp: validate_item_def parseFloat_def tolerancePercentage_def Let_def
      split: if_splits sum.splits option.splits)


lemma validate_loop_accepted_prefix:
  "list_all2 (accepted sb) pre ps \<Longrightarrow>
   validate_loop sb (pre @ rest) validated running sent =
     validate_loop sb rest (validated @ map2 catalog_priced pre ps)
       (foldl js_add running (map prod_price ps)) (sent @ map query_of pre)"
proof (induction pre ps arbitrary: validated running sent rule: list_all2_induct)
  case Nil
  then show ?case by simp
next
  case (Cons item pre p ps)
  from Cons.hyps(1) have "validate_item sb item
      = (Inr (catalog_priced item p, prod_price p), [query_of item])"
    by (rule validate_item_accepted)
  with Cons.IH show ?case by simp
qed

lemma validate_loop_valid:
  "isValid (fst (validate_loop sb items validated running sent)) \<Longrightarrow>
   \<exists>ps. list_all2 (accepted sb) items ps
      \<and> fst (validate_loop sb items validated running sent)
          = acceptance (validated @ map2 catalog_priced items ps)
              (foldl js_add running (map prod_price ps))"
proof (induction items arbitrary: validated running sent)
  case Nil
  then show ?case by simp
next
  case (Cons item items)
  show ?case
  proof (cases "validate_item sb item")
    case (Pair res qs)
    show ?thesis
    proof (cases res)
      case (Inl m)
      with Pair Cons.prems show ?thesis by (simp add: invalid_def)
    next
      case (Inr vd)
      obtain v d where vd: "vd = (v, d)" by (cases vd)
      with Pair Inr have step: "validate_item sb item = (Inr (v, d), qs)" by simp
      from validate_item_valid [OF step]
      obtain p where p: "accepted sb item p" "v = catalog_priced item p" "d = prod_price p"
        by blast
      from step Cons.prems
      have "isValid (fst (validate_loop sb items (validated @ [v]) (js_add running d)
          (sent @ qs)))"
        by simp
      from Cons.IH [OF this] obtain ps where ps: "list_all2 (accepted sb) items ps"
        "fst (validate_loop sb items (validated @ [v]) (js_add running d) (sent @ qs))
          = acceptance ((validated @ [v]) @ map2 catalog_priced items ps)
              (foldl js_add (js_add running d) (map prod_price ps))"
        by blast
      from p(1) ps(1) have "list_all2 (accepted sb) (item # items) (p # ps)"
        by simp
      moreover from step ps(2) p(2,3)
      have "fst (validate_loop sb (item # items) validated running sent)
          = acceptance (validated @ map2 catalog_priced (item # items) (p # ps))
              (foldl js_add running (map prod_price (p # ps)))"
        by simp
      ultimately show ?thesis by blast
    qed
  qed
qed


lemma foldl_js_add_exact:
  "\<forall>k \<le> length ps. round_double (a + sum_list (take k ps)) = Fin (a + sum_list (take k ps)) \<Longrightarrow>
   foldl js_add (Fin a) (map Fin ps) = Fin (a + sum_list ps)"
proof (induction ps arbitrary: a)
  case Nil
  then show ?case by simp
next
  case (Cons p ps)
  from Cons.prems have step: "round_double (a + p) = Fin (a + p)"
    by (auto dest: spec [of _ 1])
  have "\<forall>k \<le> length ps. round_double ((a + p) + sum_list (take k ps))
      = Fin ((a + p) + sum_list (take k ps))"
  proof (intro allI impI)
    fix k assume "k \<le> length ps"
    with Cons.prems have "round_double (a + sum_list (take (Suc k) (p # ps)))
        = Fin (a + sum_list (take (Suc k) (p # ps)))"
      by (auto dest: spec [of _ "Suc k"])
    then show "round_double ((a + p) + sum_list (take k ps)) = Fin ((a + p) + sum_list (take k ps))"
      by (simp add: add.assoc)
  qed
  from Cons.IH [OF this] step show ?case by (simp add: add.assoc)
qed

section \<open>Properties of the handlers\<close>

lemma parseCartItemId_bare:
  assumes "\<not> startsWith s ''cart_''"
  shows "parseCartItemId s =
     (if \<not> isNaN (parseInt s) \<and> js_gt (parseInt s) (Fin 0) then PNum (parseInt s)
      else if uuidPattern_test s then PStr s else PNull)"
  using assms by (simp add: parseCartItemId_def Let_def)

lemma initiate_gateway_request:
  "Gateway_call r \<in> set (snd (initiate env sb req)) \<Longrightarrow>
   amount r = amount req \<and> basketItems r = basketItems req"
  by (auto simp: initiate_def Let_def split: sum.splits option.splits if_splits)

lemma use_validated_gateway_request:
  "Gateway_call r \<in> set (snd (use_validated env sb req v)) \<Longrightarrow>
   validatedItems v = Some (basketItems r) \<and> calculatedTotal v = Some (amount r)"
  by (auto simp: use_validated_def Let_def split: option.splits if_splits
      dest!: initiate_gateway_request)

lemma POST_try_rejected:
  assumes "request_json env = Inr (Some body)"
    and "safeParse env body = Inr paymentRequest"
    and "createSupabaseServerClient env = Inr sb"
    and "fst (validateBasketPrices sb (basketItems paymentRequest)) = rejection m"
  shows "POST_try env = (Inr (respond 400 (Security_check_failed (Some m))), [])"
  using assms by (simp add: POST_try_def Let_def)

lemma POST_try_validated:
  assumes "request_json env = Inr (Some body)"
    and "safeParse env body = Inr paymentRequest"
    and "createSupabaseServerClient env = Inr sb"
    and "list_all2 (accepted sb) (basketItems paymentRequest) ps"
  shows "POST_try env =
     (if total_mismatch (foldl js_add (Fin 0) (map prod_price ps)) (amount paymentRequest)
      then (Inr (respond 400 (Total_manipulation (foldl js_add (Fin 0) (map prod_price ps))
                   (amount paymentRequest))), [])
      else initiate env sb (paymentRequest
             \<lparr>basketItems := map2 catalog_priced (basketItems paymentRequest) ps,
              amount := foldl js_add (Fin 0) (map prod_price ps)\<rparr>))"
proof -
  from validate_loop_accepted_prefix [OF assms(4), of "[]" "[]" "Fin 0" "[]"]
  have "fst (validateBasketPrices sb (basketItems paymentRequest))
      = acceptance (map2 catalog_priced (basketItems paymentRequest) ps)
          (foldl js_add (Fin 0) (map prod_price ps))"
    by (simp add: validateBasketPrices_def)
  with assms(1-3) show ?thesis
    by (simp add: POST_try_def use_validated_def Let_def)
qed

lemma initiate_not_total_error:
  "fst (initiate env sb req) \<noteq> Inr (respond 400 (Total_manipulation a b))"
  by (auto simp: initiate_def respond_def Let_def split: sum.splits option.splits)

lemma total_check_iff:
  assumes "request_json env = Inr (Some body)"
    and "safeParse env body = Inr paymentRequest"
    and "createSupabaseServerClient env = Inr sb"
    and "list_all2 (accepted sb) (basketItems paymentRequest) ps"
  shows "(\<exists>a b. fst (POST env) = Inr (respond 400 (Total_manipulation a b)))
         \<longleftrightarrow> total_mismatch (foldl js_add (Fin 0) (map prod_price ps)) (amount paymentRequest)"
proof (cases "total_mismatch (foldl js_add (Fin 0) (map prod_price ps)) (amount paymentRequest)")
  case True
  with POST_try_validated [OF assms] show ?thesis
    by (auto simp: POST_def)
next
  case False
  let ?req = "paymentRequest
      \<lparr>basketItems := map2 catalog_priced (basketItems paymentRequest) ps,
       amount := foldl js_add (Fin 0) (map prod_price ps)\<rparr>"
  from False POST_try_validated [OF assms] have "POST_try env = initiate env sb ?req"
    by simp
  then have "\<And>a b. fst (POST env) \<noteq> Inr (respond 400 (Total_manipulation a b))"
    using initiate_not_total_error [of env sb ?req]
    by (cases "initiate env sb ?req")
       (auto simp: POST_def respond_def split: sum.splits exn.splits)
  with False show ?thesis by blast
qed

lemma POST_body_thrown:
  assumes "request_json env = Inl (Error m) \<or> request_json env = Inr None"
  shows "POST env = (Inr (respond 500 Unexpected_server_error), [])"
  using assms by (auto simp: POST_def POST_try_def property_of_nullish_def)

lemma POST_client_thrown:
  assumes "request_json env = Inr (Some body)" and "safeParse env body = Inr paymentRequest"
    and "createSupabaseServerClient env = Inl (Error m)"
  shows "POST env = (Inr (respond 500 Unexpected_server_error), [])"
  using assms by (simp add: POST_def POST_try_def)

lemma POST_query_thrown:
  assumes "request_json env = Inr (Some body)" and "safeParse env body = Inr paymentRequest"
    and "createSupabaseServerClient env = Inr sb"
    and "basketItems paymentRequest = pre @ item # rest" and "list_all2 (accepted sb) pre qs"
    and "truthy (parseCartItemId (item_id item))" and "queried sb item = Inl x"
  shows "POST env = (Inr (respond 400 (Security_check_failed (Some Validation_error))), [])"
proof -
  from validate_loop_accepted_prefix [OF assms(5), of "item # rest" "[]" "Fin 0" "[]"]
    validate_item_threw [OF assms(6,7)]
  have "fst (validateBasketPrices sb (basketItems paymentRequest))
      = rejection Validation_error"
    by (simp add: validateBasketPrices_def assms(4) invalid_def)
  from POST_try_rejected [OF assms(1-3) this] show ?thesis
    by (simp add: POST_def)
qed

lemma POST_initiate:
  assumes "request_json env = Inr (Some body)" and "safeParse env body = Inr paymentRequest"
    and "createSupabaseServerClient env = Inr sb"
    and "list_all2 (accepted sb) (basketItems paymentRequest) ps"
    and "\<not> total_mismatch (foldl js_add (Fin 0) (map prod_price ps)) (amount paymentRequest)"
  shows "POST_try env = initiate env sb (paymentRequest
             \<lparr>basketItems := map2 catalog_priced (basketItems paymentRequest) ps,
              amount := foldl js_add (Fin 0) (map prod_price ps)\<rparr>)"
  using POST_try_validated [OF assms(1-4)] assms(5) by simp

lemma POST_settings_thrown:
  assumes "POST_try env = initiate env sb req"
    and "getIyzicoSettingsFromEnv env = Inl (Error m)"
  shows "POST env = (Inr (respond 500 Unexpected_server_error), [])"
  using assms by (simp add: POST_def initiate_def)

lemma POST_service_thrown:
  assumes "POST_try env = initiate env sb req"
    and "getIyzicoSettingsFromEnv env = Inr (Some settings)"
    and "createIyzicoService env settings = Some (Error m)"
  shows "POST env = (Inr (respond 500 Unexpected_server_error), [])"
  using assms by (simp add: POST_def initiate_def Let_def)

lemma POST_gateway_thrown:
  assumes "POST_try env = initiate env sb (req\<lparr>basketItems := items, amount := t\<rparr>)"
    and "getIyzicoSettingsFromEnv env = Inr (Some settings)"
    and "createIyzicoService env settings = None"
    and "initiate3DSecurePayment env settings (gateway_request env req items t) = Inl (Error m)"
  shows "POST env = (Inr (respond 500 Unexpected_server_error),
                     [Gateway_call (gateway_request env req items t)])"
  using assms by (simp add: POST_def initiate_def Let_def)

lemma POST_gateway_success:
  assumes "POST_try env = initiate env sb (req\<lparr>basketItems := items, amount := t\<rparr>)"
    and "getIyzicoSettingsFromEnv env = Inr (Some settings)"
    and "createIyzicoService env settings = None"
    and "initiate3DSecurePayment env settings (gateway_request env req items t)
           = Inr paymentResult"
    and "res_success paymentResult"
  shows "fst (POST env)
           = Inr \<lparr>status = 200, success = True, error = None, details = None,
                  data = Some \<lparr>paymentId = res_paymentId paymentResult,
                    conversationId = res_conversationId paymentResult,
                    htmlContent = res_htmlContent paymentResult,
                    threeDSHtmlContent = res_threeDSHtmlContent paymentResult\<rparr>,
                  errorCode = None\<rparr>"
  using assms by (simp add: POST_def initiate_def Let_def)

lemma login_body_thrown:
  assumes "login_request_json env = Inl (Error m)"
  shows "login_POST env = Inr (login_respond 500 (Server_error (or_else m ''Bilinmeyen hata'')))"
  using assms by (simp add: login_POST_def login_POST_try_def)

lemma login_link_thrown:
  assumes "login_request_json env = Inr body" and "login_safeParse env body = Inr email"
    and "generateMagicLoginLink env email
           (or_else (login_NEXT_PUBLIC_APP_URL env) ''http://localhost:3000'') = Inl (Error m)"
  shows "login_POST env = Inr (login_respond 500 (Server_error (or_else m ''Bilinmeyen hata'')))"
  using assms by (simp add: login_POST_def login_POST_try_def Let_def)

lemma login_mail_thrown:
  assumes "login_request_json env = Inr body" and "login_safeParse env body = Inr email"
    and "generateMagicLoginLink env email
           (or_else (login_NEXT_PUBLIC_APP_URL env) ''http://localhost:3000'') = Inr result"
    and "link_success result"
    and "sendMagicLoginEmail env email (link_loginUrl result) = Inl (Error m)"
  shows "login_POST env = Inr (login_respond 500 (Server_error (or_else m ''Bilinmeyen hata'')))"
  using assms by (simp add: login_POST_def login_POST_try_def Let_def)

section \<open>The claims\<close>






text \<open>
  C4. The items are processed in the order of the basket, and the first item that fails
  ends the validation. After items that are all accepted, an item whose id does not parse,
  an item whose product the catalog does not have, and an item whose price does not match
  each give the invalid validation with the message of that failure, built from that
  item's own id, name and price. The validation carries neither validated items nor a
  total, it is the same whatever items follow the failing one, and the catalog has been
  queried for the items up to the failing one only (not even for that one when its id
  does not parse).
\<close>

theorem first_failure_aborts:
  assumes "list_all2 (accepted sb) pre ps"
  shows "(\<not> truthy (parseCartItemId (item_id bad)) \<longrightarrow>
            validateBasketPrices sb (pre @ bad # rest)
              = (\<lparr>isValid = False, message = Some (Invalid_id_format (item_id bad)),
                  validatedItems = None, calculatedTotal = None\<rparr>,
                 map query_of pre))
       \<and> (truthy (parseCartItemId (item_id bad)) \<and> queried sb bad = Inr None \<longrightarrow>
            validateBasketPrices sb (pre @ bad # rest)
              = (\<lparr>isValid = False,
                  message = Some (Product_not_found (item_name bad) (item_id bad)
                                    (parseCartItemId (item_id bad))),
                  validatedItems = None, calculatedTotal = None\<rparr>,
                 map query_of (pre @ [bad])))
       \<and> (truthy (parseCartItemId (item_id bad)) \<and> queried sb bad = Inr (Some p)
            \<and> price_exceeds p bad \<longrightarrow>
            validateBasketPrices sb (pre @ bad # rest)
              = (\<lparr>isValid = False,
                  message = Some (Price_manipulation (prod_name p) (prod_price p)
                                    (item_price bad)),
                  validatedItems = None, calculatedTotal = None\<rparr>,
                 map query_of (pre @ [bad])))"
proof -
  note prefix = validate_loop_accepted_prefix [OF assms, of "bad # rest" "[]" "Fin 0" "[]"]
  have unparsed: "validateBasketPrices sb (pre @ bad # rest)
      = (rejection (Invalid_id_format (item_id bad)), map query_of pre)"
    if "\<not> truthy (parseCartItemId (item_id bad))"
    using prefix validate_item_unparsed [OF that, of sb]
    by (simp add: validateBasketPrices_def invalid_def)
  have not_found: "validateBasketPrices sb (pre @ bad # rest)
      = (rejection (Product_not_found (item_name bad) (item_id bad)
                      (parseCartItemId (item_id bad))), map query_of (pre @ [bad]))"
    if "truthy (parseCartItemId (item_id bad))" and "queried sb bad = Inr None"
    using prefix validate_item_not_found [OF that]
    by (simp add: validateBasketPrices_def invalid_def)
  have mismatch: "validateBasketPrices sb (pre @ bad # rest)
      = (rejection (Price_manipulation (prod_name p) (prod_price p) (item_price bad)),
         map query_of (pre @ [bad]))"
    if "truthy (parseCartItemId (item_id bad))" and "queried sb bad = Inr (Some p)"
      and "price_exceeds p bad"
    using prefix validate_item_exceeds [OF that]
    by (simp add: validateBasketPrices_def invalid_def)
  from unparsed not_found mismatch show ?thesis
    by blast
qed

theorem first_failure_aborts_witness:
  "validateBasketPrices example_catalog
     ([example_item ''cart_1_a_1_1'' (Fin 100)] @ example_item ''cart_7_a_1_1'' (Fin 1)
        # [example_item ''cart_2_a_1_1'' (Fin 9999)])
   = (\<lparr>isValid = False,
       message = Some (Product_not_found ''Item'' ''cart_7_a_1_1'' (PNum (Fin 7))),
       validatedItems = None, calculatedTotal = None\<rparr>,
      [Eq Col_legacy_id (PNum (Fin 1)), Eq Col_legacy_id (PNum (Fin 7))])"
proof -
  let ?first = "example_item ''cart_1_a_1_1'' (Fin 100)"
  let ?bad = "example_item ''cart_7_a_1_1'' (Fin 1)"
  have reached: "list_all2 (accepted example_catalog) [?first] [lamp]"
    by code_simp
  have unknown: "truthy (parseCartItemId (item_id ?bad))
      \<and> queried example_catalog ?bad = Inr None"
    by code_simp
  have queries: "map query_of ([?first] @ [?bad])
      = [Eq Col_legacy_id (PNum (Fin 1)), Eq Col_legacy_id (PNum (Fin 7))]"
    by code_simp
  have shown: "Product_not_found (item_name ?bad) (item_id ?bad) (parseCartItemId (item_id ?bad))
      = Product_not_found ''Item'' ''cart_7_a_1_1'' (PNum (Fin 7))"
    by code_simp
  from first_failure_aborts [OF reached, of ?bad "[example_item ''cart_2_a_1_1'' (Fin 9999)]"]
    unknown
  show ?thesis by (simp only: queries shown)
qed

text \<open>
  C7. Whenever the handler calls the gateway, every item of the client's basket has been
  accepted against a catalog product, and the request passed to the gateway carries as
  basket the validated items of the validation, which have the ids, names and prices of
  those catalog products, and as amount the calculated total of the validation, which is
  the sum of those catalog prices: the prices and the total of the client do not reach
  the gateway.
\<close>

theorem gateway_receives_validated:
  assumes "Gateway_call r \<in> set (snd (POST env))"
  shows "\<exists>body paymentRequest sb ps.
           request_json env = Inr (Some body)
         \<and> safeParse env body = Inr paymentRequest
         \<and> createSupabaseServerClient env = Inr sb
         \<and> fst (validateBasketPrices sb (basketItems paymentRequest))
             = \<lparr>isValid = True, message = None, validatedItems = Some (basketItems r),
                calculatedTotal = Some (amount r)\<rparr>
         \<and> list_all2 (accepted sb) (basketItems paymentRequest) ps
         \<and> basketItems r = map2 catalog_priced (basketItems paymentRequest) ps
         \<and> amount r = foldl js_add (Fin 0) (map prod_price ps)"
proof -
  from assms have g: "Gateway_call r \<in> set (snd (POST_try env))"
    by (auto simp: POST_def split: prod.splits sum.splits exn.splits)
  then obtain body where b: "request_json env = Inr (Some body)"
    by (cases "request_json env") (auto simp: POST_try_def split: option.splits)
  with g obtain paymentRequest where p: "safeParse env body = Inr paymentRequest"
    by (cases "safeParse env body") (auto simp: POST_try_def)
  with g b obtain sb where s: "createSupabaseServerClient env = Inr sb"
    by (cases "createSupabaseServerClient env") (auto simp: POST_try_def)
  let ?v = "fst (validateBasketPrices sb (basketItems paymentRequest))"
  from g b p s have v: "isValid ?v"
    by (auto simp: POST_try_def Let_def split: if_splits)
  with g b p s have "Gateway_call r \<in> set (snd (use_validated env sb paymentRequest ?v))"
    by (simp add: POST_try_def Let_def)
  then have fields: "validatedItems ?v = Some (basketItems r)"
      "calculatedTotal ?v = Some (amount r)"
    by (simp_all add: use_validated_gateway_request)
  from v validate_loop_valid [of sb "basketItems paymentRequest" "[]" "Fin 0" "[]"]
  obtain ps where ps: "list_all2 (accepted sb) (basketItems paymentRequest) ps"
    "?v = acceptance (map2 catalog_priced (basketItems paymentRequest) ps)
            (foldl js_add (Fin 0) (map prod_price ps))"
    by (auto simp: validateBasketPrices_def)
  from ps(2) fields have "basketItems r = map2 catalog_priced (basketItems paymentRequest) ps"
    and "amount r = foldl js_add (Fin 0) (map prod_price ps)"
    by simp_all
  with b p s ps show ?thesis by auto
qed

theorem gateway_receives_validated_witness:
  "Gateway_call example_gateway_request
     \<in> set (snd (POST (example_env [example_item ''cart_1_a_1_1'' (Fin 101)] (Fin 100))))
   \<and> basketItems example_gateway_request
       = [\<lparr>item_id = ''0a000000-0000-4000-8000-000000000001'', item_name = ''Lamp'',
           item_category = ''Home'', item_price = Fin 100\<rparr>]
   \<and> (\<exists>body paymentRequest sb ps.
           request_json (example_env [example_item ''cart_1_a_1_1'' (Fin 101)] (Fin 100))
             = Inr (Some body)
         \<and> safeParse (example_env [example_item ''cart_1_a_1_1'' (Fin 101)] (Fin 100)) body
             = Inr paymentRequest
         \<and> createSupabaseServerClient (example_env [example_item ''cart_1_a_1_1'' (Fin 101)] (Fin 100))
             = Inr sb
         \<and> fst (validateBasketPrices sb (basketItems paymentRequest))
             = \<lparr>isValid = True, message = None,
                validatedItems = Some (basketItems example_gateway_request),
                calculatedTotal = Some (amount example_gateway_request)\<rparr>
         \<and> list_all2 (accepted sb) (basketItems paymentRequest) ps
         \<and> basketItems example_gateway_request
             = map2 catalog_priced (basketItems paymentRequest) ps
         \<and> amount example_gateway_request = foldl js_add (Fin 0) (map prod_price ps))"
proof -
  have called: "Gateway_call example_gateway_request
     \<in> set (snd (POST (example_env [example_item ''cart_1_a_1_1'' (Fin 101)] (Fin 100))))"
    by code_simp
  have basket: "basketItems example_gateway_request
       = [\<lparr>item_id = ''0a000000-0000-4000-8000-000000000001'', item_name = ''Lamp'',
           item_category = ''Home'', item_price = Fin 100\<rparr>]"
    by (simp add: example_gateway_request_def)
  from called basket gateway_receives_validated [OF called] show ?thesis
    by (intro conjI)
qed

text \<open>
  C8, as the handlers have it. When one of the calls that a handler makes in its own
  \<^verbatim>\<open>try\<close> throws an error other than \<^verbatim>\<open>undefined\<close> or \<^verbatim>\<open>null\<close>, the
  handler catches it and answers with the status 500. For the payment handler these are
  the parsing of the body, the listing of the keys of a body \<^verbatim>\<open>null\<close>, the creation
  of the database client, the loading of the gateway settings, the creation of the gateway
  service and the call of the gateway, and the answer is one fixed text, whatever the
  error. For the magic login handler these are the parsing of the body, the generation of
  the link and the sending of the e-mail, and the answer is a fixed prefix followed by the
  message of the error, or by a fixed text when the error has no message or an empty one.
  An error thrown by a query of the catalog does not reach the handler: the validator
  catches it, and the handler answers with the status 400 and the fixed text of the
  validator. An error thrown by an insert after a successful initiation changes nothing of
  the answer.
\<close>

theorem handler_exceptions:
  "(request_json env = Inl (Error m) \<or> request_json env = Inr None \<longrightarrow>
      POST env = (Inr (respond 500 Unexpected_server_error), []))
   \<and> (request_json env = Inr (Some body) \<and> safeParse env body = Inr paymentRequest
       \<and> createSupabaseServerClient env = Inl (Error m) \<longrightarrow>
      POST env = (Inr (respond 500 Unexpected_server_error), []))
   \<and> (request_json env = Inr (Some body) \<and> safeParse env body = Inr paymentRequest
       \<and> createSupabaseServerClient env = Inr sb
       \<and> basketItems paymentRequest = pre @ item # rest \<and> list_all2 (accepted sb) pre qs
       \<and> truthy (parseCartItemId (item_id item)) \<and> queried sb item = Inl x \<longrightarrow>
      POST env = (Inr (respond 400 (Security_check_failed (Some Validation_error))), []))
   \<and> (request_json env = Inr (Some body) \<and> safeParse env body = Inr paymentRequest
       \<and> createSupabaseServerClient env = Inr sb
       \<and> list_all2 (accepted sb) (basketItems paymentRequest) ps
       \<and> \<not> total_mismatch (foldl js_add (Fin 0) (map prod_price ps)) (amount paymentRequest)
       \<longrightarrow>
        (getIyzicoSettingsFromEnv env = Inl (Error m) \<longrightarrow>
           POST env = (Inr (respond 500 Unexpected_server_error), []))
      \<and> (getIyzicoSettingsFromEnv env = Inr (Some settings)
          \<and> createIyzicoService env settings = Some (Error m) \<longrightarrow>
           POST env = (Inr (respond 500 Unexpected_server_error), []))
      \<and> (getIyzicoSettingsFromEnv env = Inr (Some settings)
          \<and> createIyzicoService env settings = None
          \<and> initiate3DSecurePayment env settings
               (gateway_request env paymentRequest
                  (map2 catalog_priced (basketItems paymentRequest) ps)
                  (foldl js_add (Fin 0) (map prod_price ps))) = Inl (Error m) \<longrightarrow>
           POST env = (Inr (respond 500 Unexpected_server_error),
                       [Gateway_call (gateway_request env paymentRequest
                          (map2 catalog_priced (basketItems paymentRequest) ps)
                          (foldl js_add (Fin 0) (map prod_price ps)))]))
      \<and> (getIyzicoSettingsFromEnv env = Inr (Some settings)
          \<and> createIyzicoService env settings = None
          \<and> initiate3DSecurePayment env settings
               (gateway_request env paymentRequest
                  (map2 catalog_priced (basketItems paymentRequest) ps)
                  (foldl js_add (Fin 0) (map prod_price ps))) = Inr paymentResult
          \<and> res_success paymentResult \<longrightarrow>
           fst (POST env)
             = Inr \<lparr>status = 200, success = True, error = None, details = None,
                    data = Some \<lparr>paymentId = res_paymentId paymentResult,
                      conversationId = res_conversationId paymentResult,
                      htmlContent = res_htmlContent paymentResult,
                      threeDSHtmlContent = res_threeDSHtmlContent paymentResult\<rparr>,
                    errorCode = None\<rparr>))
   \<and> (login_request_json lenv = Inl (Error m) \<longrightarrow>
        login_POST lenv
          = Inr (login_respond 500 (Server_error (or_else m ''Bilinmeyen hata''))))
   \<and> (login_request_json lenv = Inr lbody \<and> login_safeParse lenv lbody = Inr email
       \<and> generateMagicLoginLink lenv email
            (or_else (login_NEXT_PUBLIC_APP_URL lenv) ''http://localhost:3000'')
          = Inl (Error m) \<longrightarrow>
        login_POST lenv
          = Inr (login_respond 500 (Server_error (or_else m ''Bilinmeyen hata''))))
   \<and> (login_request_json lenv = Inr lbody \<and> login_safeParse lenv lbody = Inr email
       \<and> generateMagicLoginLink lenv email
            (or_else (login_NEXT_PUBLIC_APP_URL lenv) ''http://localhost:3000'')
          = Inr result
       \<and> link_success result
       \<and> sendMagicLoginEmail lenv email (link_loginUrl result) = Inl (Error m) \<longrightarrow>
        login_POST lenv
          = Inr (login_respond 500 (Server_error (or_else m ''Bilinmeyen hata''))))"
proof -
  have body: "request_json env = Inl (Error m) \<or> request_json env = Inr None \<longrightarrow>
      POST env = (Inr (respond 500 Unexpected_server_error), [])"
    by (rule impI) (rule POST_body_thrown)
  have client: "request_json env = Inr (Some body) \<and> safeParse env body = Inr paymentRequest
       \<and> createSupabaseServerClient env = Inl (Error m) \<longrightarrow>
      POST env = (Inr (respond 500 Unexpected_server_error), [])"
    using POST_client_thrown [of env body paymentRequest m] by simp
  have query: "request_json env = Inr (Some body) \<and> safeParse env body = Inr paymentRequest
       \<and> createSupabaseServerClient env = Inr sb
       \<and> basketItems paymentRequest = pre @ item # rest \<and> list_all2 (accepted sb) pre qs
       \<and> truthy (parseCartItemId (item_id item)) \<and> queried sb item = Inl x \<longrightarrow>
      POST env = (Inr (respond 400 (Security_check_failed (Some Validation_error))), [])"
    using POST_query_thrown [of env body paymentRequest sb pre item rest qs x] by simp
  have later: "request_json env = Inr (Some body) \<and> safeParse env body = Inr paymentRequest
       \<and> createSupabaseServerClient env = Inr sb
       \<and> list_all2 (accepted sb) (basketItems paymentRequest) ps
       \<and> \<not> total_mismatch (foldl js_add (Fin 0) (map prod_price ps)) (amount paymentRequest)
       \<longrightarrow>
         (getIyzicoSettingsFromEnv env = Inl (Error m) \<longrightarrow>
           POST env = (Inr (respond 500 Unexpected_server_error), []))
      \<and> (getIyzicoSettingsFromEnv env = Inr (Some settings)
          \<and> createIyzicoService env settings = Some (Error m) \<longrightarrow>
           POST env = (Inr (respond 500 Unexpected_server_error), []))
      \<and> (getIyzicoSettingsFromEnv env = Inr (Some settings)
          \<and> createIyzicoService env settings = None
          \<and> initiate3DSecurePayment env settings
               (gateway_request env paymentRequest
                  (map2 catalog_priced (basketItems paymentRequest) ps)
                  (foldl js_add (Fin 0) (map prod_price ps))) = Inl (Error m) \<longrightarrow>
           POST env = (Inr (respond 500 Unexpected_server_error),
                       [Gateway_call (gateway_request env paymentRequest
                          (map2 catalog_priced (basketItems paymentRequest) ps)
                          (foldl js_add (Fin 0) (map prod_price ps)))]))
      \<and> (getIyzicoSettingsFromEnv env = Inr (Some settings)
          \<and> createIyzicoService env settings = None
          \<and> initiate3DSecurePayment env settings
               (gateway_request env paymentRequest
                  (map2 catalog_priced (basketItems paymentRequest) ps)
                  (foldl js_add (Fin 0) (map prod_price ps))) = Inr paymentResult
          \<and> res_success paymentResult \<longrightarrow>
           fst (POST env)
             = Inr \<lparr>status = 200, success = True, error = None, details = None,
                    data = Some \<lparr>paymentId = res_paymentId paymentResult,
                      conversationId = res_conversationId paymentResult,
                      htmlContent = res_htmlContent paymentResult,
                      threeDSHtmlContent = res_threeDSHtmlContent paymentResult\<rparr>,
                    errorCode = None\<rparr>)"
    (is "?reach \<longrightarrow> ?answers")
  proof (rule impI)
    assume reach: ?reach
    from reach have r1: "request_json env = Inr (Some body)"
      and r2: "safeParse env body = Inr paymentRequest"
      and r3: "createSupabaseServerClient env = Inr sb"
      and r4: "list_all2 (accepted sb) (basketItems paymentRequest) ps"
      and r5: "\<not> total_mismatch (foldl js_add (Fin 0) (map prod_price ps))
                 (amount paymentRequest)"
      by simp_all
    note init = POST_initiate [OF r1 r2 r3 r4 r5]
    show ?answers
    proof (intro conjI impI)
      assume "getIyzicoSettingsFromEnv env = Inl (Error m)"
      with init show "POST env = (Inr (respond 500 Unexpected_server_error), [])"
        by (rule POST_settings_thrown)
    next
      assume "getIyzicoSettingsFromEnv env = Inr (Some settings)
          \<and> createIyzicoService env settings = Some (Error m)"
      then show "POST env = (Inr (respond 500 Unexpected_server_error), [])"
        using POST_service_thrown [OF init] by simp
    next
      assume "getIyzicoSettingsFromEnv env = Inr (Some settings)
          \<and> createIyzicoService env settings = None
          \<and> initiate3DSecurePayment env settings
               (gateway_request env paymentRequest
                  (map2 catalog_priced (basketItems paymentRequest) ps)
                  (foldl js_add (Fin 0) (map prod_price ps))) = Inl (Error m)"
      then have g1: "getIyzicoSettingsFromEnv env = Inr (Some settings)"
        and g2: "createIyzicoService env settings = None"
        and g3: "initiate3DSecurePayment env settings
               (gateway_request env paymentRequest
                  (map2 catalog_priced (basketItems paymentRequest) ps)
                  (foldl js_add (Fin 0) (map prod_price ps))) = Inl (Error m)"
        by simp_all
      show "POST env = (Inr (respond 500 Unexpected_server_error),
                       [Gateway_call (gateway_request env paymentRequest
                          (map2 catalog_priced (basketItems paymentRequest) ps)
                          (foldl js_add (Fin 0) (map prod_price ps)))])"
        by (rule POST_gateway_thrown [OF init g1 g2 g3])
    next
      assume "getIyzicoSettingsFromEnv env = Inr (Some settings)
          \<and> createIyzicoService env settings = None
          \<and> initiate3DSecurePayment env settings
               (gateway_request env paymentRequest
                  (map2 catalog_priced (basketItems paymentRequest) ps)
                  (foldl js_add (Fin 0) (map prod_price ps))) = Inr paymentResult
          \<and> res_success paymentResult"
      then have g1: "getIyzicoSettingsFromEnv env = Inr (Some settings)"
        and g2: "createIyzicoService env settings = None"
        and g3: "initiate3DSecurePayment env settings
               (gateway_request env paymentRequest
                  (map2 catalog_priced (basketItems paymentRequest) ps)
                  (foldl js_add (Fin 0) (map prod_price ps))) = Inr paymentResult"
        and g4: "res_success paymentResult"
        by simp_all
      show "fst (POST env)
             = Inr \<lparr>status = 200, success = True, error = None, details = None,
                    data = Some \<lparr>paymentId = res_paymentId paymentResult,
                      conversationId = res_conversationId paymentResult,
                      htmlContent = res_htmlContent paymentResult,
                      threeDSHtmlContent = res_threeDSHtmlContent paymentResult\<rparr>,
                    errorCode = None\<rparr>"
        by (rule POST_gateway_success [OF init g1 g2 g3 g4])
    qed
  qed
  have login_body: "login_request_json lenv = Inl (Error m) \<longrightarrow>
        login_POST lenv
          = Inr (login_respond 500 (Server_error (or_else m ''Bilinmeyen hata'')))"
    by (rule impI) (rule login_body_thrown)
  have login_link: "login_request_json lenv = Inr lbody \<and> login_safeParse lenv lbody = Inr email
       \<and> generateMagicLoginLink lenv email
            (or_else (login_NEXT_PUBLIC_APP_URL lenv) ''http://localhost:3000'')
          = Inl (Error m) \<longrightarrow>
        login_POST lenv
          = Inr (login_respond 500 (Server_error (or_else m ''Bilinmeyen hata'')))"
    using login_link_thrown [of lenv lbody email m] by simp
  have login_mail: "login_request_json lenv = Inr lbody \<and> login_safeParse lenv lbody = Inr email
       \<and> generateMagicLoginLink lenv email
            (or_else (login_NEXT_PUBLIC_APP_URL lenv) ''http://localhost:3000'')
          = Inr result
       \<and> link_success result
       \<and> sendMagicLoginEmail lenv email (link_loginUrl result) = Inl (Error m) \<longrightarrow>
        login_POST lenv
          = Inr (login_respond 500 (Server_error (or_else m ''Bilinmeyen hata'')))"
    using login_mail_thrown [of lenv lbody email result m] by simp
  show ?thesis
    by (intro conjI)
       (rule body, rule client, rule query, rule later, rule login_body, rule login_link,
        rule login_mail)
qed

theorem handler_exceptions_witness:
  "POST ((example_env [example_item ''cart_1_a_1_1'' (Fin 100)] (Fin 100))
      \<lparr>initiate3DSecurePayment := (\<lambda>settings req. Inl (Error (Some ''socket hang up'')))\<rparr>)
     = (Inr (respond 500 Unexpected_server_error), [Gateway_call example_gateway_request])
   \<and> login_POST ((example_login_env None)
      \<lparr>sendMagicLoginEmail := (\<lambda>email url. Inl (Error None))\<rparr>)
     = Inr (login_respond 500 (Server_error ''Bilinmeyen hata''))"
proof -
  let ?env = "(example_env [example_item ''cart_1_a_1_1'' (Fin 100)] (Fin 100))
      \<lparr>initiate3DSecurePayment := (\<lambda>settings req. Inl (Error (Some ''socket hang up'')))\<rparr>"
  let ?request = "example_request [example_item ''cart_1_a_1_1'' (Fin 100)] (Fin 100)"
  let ?lenv = "(example_login_env None)
      \<lparr>sendMagicLoginEmail := (\<lambda>email url. Inl (Error None))\<rparr>"
  let ?link = "\<lparr>link_success = True,
      link_loginUrl = Some ''http://localhost:3000/login?token=t'', link_error = None\<rparr>"
  have json: "request_json ?env = Inr (Some ())"
    by (simp add: example_env_def)
  have parsed: "safeParse ?env () = Inr ?request"
    by (simp add: example_env_def)
  have client: "createSupabaseServerClient ?env = Inr example_catalog"
    by (simp add: example_env_def)
  have items: "list_all2 (accepted example_catalog) (basketItems ?request) [lamp]"
    by code_simp
  have total: "\<not> total_mismatch (foldl js_add (Fin 0) (map prod_price [lamp])) (amount ?request)"
    by code_simp
  have settings: "getIyzicoSettingsFromEnv ?env = Inr (Some ())"
    by (simp add: example_env_def)
  have service: "createIyzicoService ?env () = None"
    by (simp add: example_env_def)
  have request: "gateway_request ?env ?request (map2 catalog_priced (basketItems ?request) [lamp])
      (foldl js_add (Fin 0) (map prod_price [lamp])) = example_gateway_request"
    by code_simp
  have thrown: "initiate3DSecurePayment ?env ()
      (gateway_request ?env ?request (map2 catalog_priced (basketItems ?request) [lamp])
         (foldl js_add (Fin 0) (map prod_price [lamp]))) = Inl (Error (Some ''socket hang up''))"
    by (simp add: example_env_def)
  have ljson: "login_request_json ?lenv = Inr ()"
    by (simp add: example_login_env_def)
  have lparsed: "login_safeParse ?lenv () = Inr ''a@b.example''"
    by (simp add: example_login_env_def)
  have link: "generateMagicLoginLink ?lenv ''a@b.example''
      (or_else (login_NEXT_PUBLIC_APP_URL ?lenv) ''http://localhost:3000'') = Inr ?link"
    by (simp add: example_login_env_def or_else_def)
  have ok: "link_success ?link"
    by simp
  have mail: "sendMagicLoginEmail ?lenv ''a@b.example'' (link_loginUrl ?link) = Inl (Error None)"
    by (simp add: example_login_env_def)
  have fallback: "or_else None ''Bilinmeyen hata'' = ''Bilinmeyen hata''"
    by (simp add: or_else_def)
  note reach = conjI [OF json conjI [OF parsed conjI [OF client conjI [OF items total]]]]
  note gateway = conjI [OF settings conjI [OF service thrown]]
  note payment = handler_exceptions
    [where env = ?env and m = "Some ''socket hang up''" and body = "()"
       and paymentRequest = ?request and sb = example_catalog and ps = "[lamp]"
       and settings = "()",
     THEN conjunct2, THEN conjunct2, THEN conjunct2, THEN conjunct1, THEN mp, OF reach,
     THEN conjunct2, THEN conjunct2, THEN conjunct1, THEN mp, OF gateway]
  note sending = conjI [OF ljson conjI [OF lparsed conjI [OF link conjI [OF ok mail]]]]
  note login = handler_exceptions
    [where lenv = ?lenv and m = None and lbody = "()" and email = "''a@b.example''"
       and result = ?link,
     THEN conjunct2, THEN conjunct2, THEN conjunct2, THEN conjunct2, THEN conjunct2,
     THEN conjunct2, THEN mp, OF sending]
  from payment login show ?thesis
    by (simp only: request fallback)
qed

theorem exceptions_answered_otherwise:
  "login_POST ((example_login_env (Some ''production''))
      \<lparr>login_request_json := Inl (Error (Some ''connect ECONNREFUSED 10.0.0.5:5432''))\<rparr>)
     = Inr \<lparr>login_status = 500, login_success = False,
            login_error = Some (Server_error ''connect ECONNREFUSED 10.0.0.5:5432''),
            login_details = None, login_message = None, login_loginUrl = None\<rparr>
   \<and> login_POST ((example_login_env (Some ''production''))\<lparr>login_request_json := Inl Nullish\<rparr>)
     = Inl property_of_nullish
   \<and> POST ((example_env [example_item ''cart_1_a_1_1'' (Fin 100)] (Fin 100))
        \<lparr>request_json := Inl Nullish\<rparr>)
     = (Inl property_of_nullish, [])
   \<and> POST ((example_env [example_item ''cart_1_a_1_1'' (Fin 100)] (Fin 100))
        \<lparr>createSupabaseServerClient := Inr (example_catalog
           \<lparr>select_single := (\<lambda>q. Inl (Error (Some ''query timeout'')))\<rparr>)\<rparr>)
     = (Inr \<lparr>status = 400, success = False,
             error = Some (Security_check_failed (Some Validation_error)),
             details = None, data = None, errorCode = None\<rparr>, [])
   \<and> POST ((example_env [example_item ''cart_1_a_1_1'' (Fin 100)] (Fin 100))
        \<lparr>createSupabaseServerClient := Inr (example_catalog
           \<lparr>insert_throws := (\<lambda>row. Some (Error (Some ''connection lost'')))\<rparr>)\<rparr>)
     = (Inr \<lparr>status = 200, success = True, error = None, details = None,
             data = Some \<lparr>paymentId = Some ''pay-1'', conversationId = Some ''conv-1'',
                           htmlContent = Some ''<html>'', threeDSHtmlContent = None\<rparr>,
             errorCode = None\<rparr>,
        [Gateway_call example_gateway_request,
         Insert (Payment_transaction ''ORD-1'' (Fin 100))])"
  by code_simp

text \<open>
  C9, as the handler has it. A successful magic login request is answered with the status
  200 and the confirmation text. The answer carries the generated login URL exactly when
  the mode of the process is \<^verbatim>\<open>development\<close>; in every other mode, production
  included, it carries none.
\<close>

theorem login_success_response:
  assumes "login_request_json env = Inr body"
    and "login_safeParse env body = Inr email"
    and "generateMagicLoginLink env email
           (or_else (login_NEXT_PUBLIC_APP_URL env) ''http://localhost:3000'') = Inr result"
    and "link_success result"
    and "sendMagicLoginEmail env email (link_loginUrl result) = Inr True"
  shows "login_POST env
           = Inr \<lparr>login_status = 200, login_success = True, login_error = None,
                  login_details = None, login_message = Some confirmation,
                  login_loginUrl = (if env_NODE_ENV env = Some ''development''
                                    then link_loginUrl result else None)\<rparr>
       \<and> (env_NODE_ENV env = Some ''production'' \<longrightarrow>
            (\<exists>r. login_POST env = Inr r \<and> login_loginUrl r = None))"
  using assms by (simp add: login_POST_def login_POST_try_def Let_def)

theorem login_success_response_witness:
  "login_POST (example_login_env (Some ''development''))
     = Inr \<lparr>login_status = 200, login_success = True, login_error = None,
            login_details = None, login_message = Some confirmation,
            login_loginUrl = Some ''http://localhost:3000/login?token=t''\<rparr>"
proof -
  let ?env = "example_login_env (Some ''development'')"
  let ?result = "\<lparr>link_success = True,
      link_loginUrl = Some ''http://localhost:3000/login?token=t'', link_error = None\<rparr>"
  have json: "login_request_json ?env = Inr ()"
    by (simp add: example_login_env_def)
  have parsed: "login_safeParse ?env () = Inr ''a@b.example''"
    by (simp add: example_login_env_def)
  have link: "generateMagicLoginLink ?env ''a@b.example''
      (or_else (login_NEXT_PUBLIC_APP_URL ?env) ''http://localhost:3000'') = Inr ?result"
    by (simp add: example_login_env_def or_else_def)
  have ok: "link_success ?result"
    by simp
  have sent: "sendMagicLoginEmail ?env ''a@b.example'' (link_loginUrl ?result) = Inr True"
    by (simp add: example_login_env_def)
  have mode: "env_NODE_ENV ?env = Some ''development''"
    by (simp add: example_login_env_def)
  from login_success_response [OF json parsed link ok sent] mode
  show ?thesis by simp
qed

theorem login_url_absent_in_test_mode:
  "env_NODE_ENV (example_login_env (Some ''test'')) \<noteq> Some ''production''
   \<and> login_POST (example_login_env (Some ''test''))
       = Inr \<lparr>login_status = 200, login_success = True, login_error = None,
              login_details = None, login_message = Some confirmation,
              login_loginUrl = None\<rparr>"
  by code_simp

text \<open>
  C3, at the boundary. The total check answers with the total-mismatch error exactly when
  the absolute difference of the validated total and the client total is strictly greater
  than 0.01 (lemma \<open>total_check_iff\<close>). With the validated total 100 and the client
  total 100.01 the difference computed by the handler is 0.010000000000005116 (the Number
  nearest to 100.01 lies above 100.01), which is greater than the Number nearest to 0.01:
  the request is answered with the total-mismatch error, as the request with the client
  total 100.02 is.
\<close>

theorem total_check_one_kurus:
  "POST (example_env [example_item ''cart_1_a_1_1'' (Fin 100)] (round_double (10001 / 100)))
     = (Inr (respond 400 (Total_manipulation (Fin 100) (round_double (10001 / 100)))), [])
   \<and> POST (example_env [example_item ''cart_1_a_1_1'' (Fin 100)] (round_double (10002 / 100)))
     = (Inr (respond 400 (Total_manipulation (Fin 100) (round_double (10002 / 100)))), [])
   \<and> js_abs (js_sub (Fin 100) (round_double (10001 / 100))) = Fin (703687441777 / 70368744177664)
   \<and> round_double (1 / 100) = Fin (5764607523034235 / 576460752303423488)
   \<and> total_mismatch (Fin 100) (round_double (10001 / 100))"
  by code_simp

text \<open>
  C5, as the function computes it. The identifier \<^verbatim>\<open>cart_42_v_123_xyz\<close> gives the
  legacy id 42, \<^verbatim>\<open>not-an-id\<close> gives the parse failure and \<^verbatim>\<open>77\<close> gives the
  legacy id 77. The identifier
  \<^verbatim>\<open>cart_3fa85f64-5717-4562-b3fc-2c963f66afa6_v_1_1\<close> gives the legacy id 3: the
  integer parse of its second segment reads the leading digit and ignores the rest.
\<close>

theorem parseCartItemId_examples:
  "parseCartItemId ''cart_42_v_123_xyz'' = PNum (Fin 42)
   \<and> parseCartItemId ''cart_3fa85f64-5717-4562-b3fc-2c963f66afa6_v_1_1'' = PNum (Fin 3)
   \<and> parseCartItemId ''not-an-id'' = PNull
   \<and> parseCartItemId ''77'' = PNum (Fin 77)"
  by code_simp

text \<open>
  C6, as the function computes it. An identifier without the prefix \<^verbatim>\<open>cart_\<close> gives
  a legacy id as soon as the integer parse finds a positive number at its start (lemma
  \<open>parseCartItemId_bare\<close>). The identifier
  \<^verbatim>\<open>3fa85f64-5717-4562-b3fc-2c963f66afa6\<close> matches the UUID pattern and is not the
  decimal representation of an integer, and it gives the legacy id 3;
  \<^verbatim>\<open>77abc\<close> gives the legacy id 77.
\<close>

theorem parseCartItemId_bare_uuid:
  "\<not> startsWith ''3fa85f64-5717-4562-b3fc-2c963f66afa6'' ''cart_''
   \<and> uuidPattern_test ''3fa85f64-5717-4562-b3fc-2c963f66afa6''
   \<and> \<not> list_all is_digit ''3fa85f64-5717-4562-b3fc-2c963f66afa6''
   \<and> parseCartItemId ''3fa85f64-5717-4562-b3fc-2c963f66afa6'' = PNum (Fin 3)
   \<and> parseCartItemId ''77abc'' = PNum (Fin 77)"
  by code_simp

text \<open>
  C10, as the function computes it. For an identifier that starts with \<^verbatim>\<open>cart_\<close>
  the result is never the parse failure: it is the Number that the integer parse reads at
  the start of the second segment when that Number is positive, and the second segment
  itself otherwise. The Number is a positive integer or, for a run of digits beyond the
  range of the finite Numbers, positive infinity. The segment may be empty (as for
  \<^verbatim>\<open>cart_\<close> and \<^verbatim>\<open>cart__x\<close>), it is not matched against the UUID pattern
  (as for \<^verbatim>\<open>cart_zz\<close>), and the validator rejects the item for its id exactly when
  the result is false as a truth value, which is exactly when the segment is empty.
\<close>

theorem cart_prefix_result:
  assumes "startsWith s ''cart_''"
  shows "parseCartItemId s \<noteq> PNull
       \<and> parseCartItemId s =
           (if \<not> isNaN (parseInt (split (CHR ''_'') s ! 1))
               \<and> js_gt (parseInt (split (CHR ''_'') s ! 1)) (Fin 0)
            then PNum (parseInt (split (CHR ''_'') s ! 1))
            else PStr (split (CHR ''_'') s ! 1))
       \<and> (parseCartItemId s = PStr (split (CHR ''_'') s ! 1)
          \<or> parseCartItemId s = PNum PInf
          \<or> (\<exists>k>0. parseCartItemId s = PNum (Fin (of_int k))))
       \<and> (truthy (parseCartItemId s) \<longleftrightarrow> split (CHR ''_'') s ! 1 \<noteq> [])
       \<and> (item_id item = s \<longrightarrow>
            (fst (validate_item sb item) = Inl (Invalid_id_format s)
             \<longleftrightarrow> \<not> truthy (parseCartItemId s)))
       \<and> parseCartItemId ''cart_'' = PStr []
       \<and> parseCartItemId ''cart__x'' = PStr []
       \<and> parseCartItemId ''cart_zz'' = PStr ''zz''
       \<and> \<not> uuidPattern_test ''zz''"
proof -
  let ?seg = "split (CHR ''_'') s ! 1"
  note shape = parseCartItemId_cart [OF assms]
  have not_null: "parseCartItemId s \<noteq> PNull"
    by (simp add: shape)
  have kinds: "parseCartItemId s = PStr ?seg \<or> parseCartItemId s = PNum PInf
      \<or> (\<exists>k>0. parseCartItemId s = PNum (Fin (of_int k)))"
  proof (cases "\<not> isNaN (parseInt ?seg) \<and> js_gt (parseInt ?seg) (Fin 0)")
    case True
    then have "parseInt ?seg = PInf \<or> (\<exists>k>0. parseInt ?seg = Fin (of_int k))"
      by (simp add: positive_parseInt)
    moreover from True have "parseCartItemId s = PNum (parseInt ?seg)"
      by (simp add: shape)
    ultimately show ?thesis by auto
  next
    case False
    then have "parseCartItemId s = PStr ?seg"
      by (auto simp: shape)
    then show ?thesis by simp
  qed
  have rejected: "item_id item = s \<longrightarrow>
      (fst (validate_item sb item) = Inl (Invalid_id_format s)
       \<longleftrightarrow> \<not> truthy (parseCartItemId s))"
    using validate_item_invalid_id [of sb item] by auto
  have examples: "parseCartItemId ''cart_'' = PStr [] \<and> parseCartItemId ''cart__x'' = PStr []
      \<and> parseCartItemId ''cart_zz'' = PStr ''zz'' \<and> \<not> uuidPattern_test ''zz''"
    by code_simp
  from not_null shape kinds truthy_cart [OF assms] rejected examples
  show ?thesis by (intro conjI) simp_all
qed

theorem cart_prefix_result_witness:
  "startsWith ''cart_42_v_123_xyz'' ''cart_''
   \<and> split (CHR ''_'') ''cart_42_v_123_xyz'' ! 1 = ''42''
   \<and> parseCartItemId ''cart_42_v_123_xyz'' \<noteq> PNull
   \<and> truthy (parseCartItemId ''cart_42_v_123_xyz'')"
proof -
  have prefixed: "startsWith ''cart_42_v_123_xyz'' ''cart_''"
    by code_simp
  have segment: "split (CHR ''_'') ''cart_42_v_123_xyz'' ! 1 = ''42''"
    by code_simp
  have not_null: "parseCartItemId ''cart_42_v_123_xyz'' \<noteq> PNull"
    using cart_prefix_result [OF prefixed] by (rule conjunct1)
  have "truthy (parseCartItemId ''cart_42_v_123_xyz'')
      \<longleftrightarrow> split (CHR ''_'') ''cart_42_v_123_xyz'' ! 1 \<noteq> []"
    using cart_prefix_result [OF prefixed] by blast
  then have true: "truthy (parseCartItemId ''cart_42_v_123_xyz'')"
    by (simp only: segment) simp
  from prefixed segment not_null true show ?thesis by (intro conjI)
qed

theorem cart_prefix_overflow:
  "parseCartItemId (''cart_'' @ replicate 310 (CHR ''9'')) = PNum PInf"
  by code_simp

end
